theory Spec2Isabelle
  imports Complex_Main
begin

section \<open>Python values handled by \<open>app.py\<close>\<close>

text \<open>
  A Python \<open>float\<close> is a finite binary64 value, one of the two infinities, or a NaN.
  A finite value is represented by the real number it was read from: rounding to
  binary64 is not modelled, only the overflow to an infinity at the edge of the range.
\<close>

datatype pyfloat = Fin real | PosInf | NegInf | NaN

text \<open>
  What \<open>r.json()\<close> returns. Python's \<open>None\<close> is \<open>JNull\<close> (the decoder maps JSON
  \<open>null\<close> to \<open>None\<close>); a \<open>dict\<close> is an association list read with \<open>map_of\<close>.
\<close>

datatype json =
    JNull
  | JBool bool
  | JInt int
  | JFloat pyfloat
  | JStr string
  | JArr "json list"
  | JObj "(string \<times> json) list"

datatype pyerror = AttributeError | TypeError | ValueError | OverflowError

text \<open>Truth value of an object, as \<open>data or default\<close> tests it.\<close>

fun truthy :: "json \<Rightarrow> bool" where
  "truthy JNull = False"
| "truthy (JBool b) = b"
| "truthy (JInt n) = (n \<noteq> 0)"
| "truthy (JFloat f) = (f \<noteq> Fin 0)"
| "truthy (JStr s) = (s \<noteq> [])"
| "truthy (JArr xs) = (xs \<noteq> [])"
| "truthy (JObj kvs) = (kvs \<noteq> [])"

text \<open>\<open>a or b\<close>.\<close>

definition py_or :: "json \<Rightarrow> json \<Rightarrow> json" where
  "py_or a b = (if truthy a then a else b)"

text \<open>\<open>d.get(k, default)\<close>: only a \<open>dict\<close> has the method.\<close>

fun dict_get :: "json \<Rightarrow> string \<Rightarrow> json \<Rightarrow> pyerror + json" where
  "dict_get (JObj kvs) k d = Inr (case map_of kvs k of None \<Rightarrow> d | Some v \<Rightarrow> v)"
| "dict_get _ k d = Inl AttributeError"

subsection \<open>Strings\<close>

text \<open>
  A \<open>str\<close> is modelled as a list of code points below 256. \<open>str.strip()\<close> removes the
  characters for which \<open>str.isspace\<close> holds; \<open>str.lower()\<close> maps the upper-case letters
  of that range to their lower-case partners.
\<close>

definition py_isspace :: "char \<Rightarrow> bool" where
  "py_isspace c = (let n = (of_char c :: nat) in
     (9 \<le> n \<and> n \<le> 13) \<or> (28 \<le> n \<and> n \<le> 32) \<or> n = 133 \<or> n = 160)"

definition strip :: "string \<Rightarrow> string" where
  "strip s = rev (dropWhile py_isspace (rev (dropWhile py_isspace s)))"

definition lower_char :: "char \<Rightarrow> char" where
  "lower_char c = (let n = (of_char c :: nat) in
     if (65 \<le> n \<and> n \<le> 90) \<or> (192 \<le> n \<and> n \<le> 222 \<and> n \<noteq> 215)
     then char_of (n + 32) else c)"

definition lower :: "string \<Rightarrow> string" where
  "lower s = map lower_char s"

text \<open>\<open>sep.join(xs)\<close>.\<close>

fun join :: "string \<Rightarrow> string list \<Rightarrow> string" where
  "join sep [] = []"
| "join sep [x] = x"
| "join sep (x # y # ys) = x @ sep @ join sep (y # ys)"

subsection \<open>\<open>float(...)\<close>\<close>

text \<open>
  An integer or a decimal whose magnitude reaches \<open>2^1024 - 2^970\<close> no longer rounds to a
  finite binary64 value.
\<close>

definition float_overflow_bound :: real where
  "float_overflow_bound = 2 ^ 1024 - 2 ^ 970"

definition is_digit :: "char \<Rightarrow> bool" where
  "is_digit c = (let n = (of_char c :: nat) in 48 \<le> n \<and> n \<le> 57)"

definition digit_val :: "char \<Rightarrow> nat" where
  "digit_val c = of_char c - 48"

definition digits_val :: "string \<Rightarrow> nat" where
  "digits_val ds = foldl (\<lambda>acc c. 10 * acc + digit_val c) 0 ds"

text \<open>
  Underscores are accepted only between two digits; \<open>prev\<close> is the character before the
  one looked at (\<open>None\<close> at the start).
\<close>

fun underscores_ok :: "char option \<Rightarrow> string \<Rightarrow> bool" where
  "underscores_ok prev [] = (prev \<noteq> Some (CHR ''_''))"
| "underscores_ok prev (c # cs) =
     (if c = CHR ''_''
      then (case prev of None \<Rightarrow> False | Some p \<Rightarrow> is_digit p) \<and> underscores_ok (Some c) cs
      else (prev = Some (CHR ''_'') \<longrightarrow> is_digit c) \<and> underscores_ok (Some c) cs)"

text \<open>The white space that \<open>float\<close> itself trims from both ends of its argument.\<close>

definition float_isspace :: "char \<Rightarrow> bool" where
  "float_isspace c = (let n = (of_char c :: nat) in
     (9 \<le> n \<and> n \<le> 13) \<or> n = 32 \<or> n = 133 \<or> n = 160)"

definition float_strip :: "string \<Rightarrow> string" where
  "float_strip s = rev (dropWhile float_isspace (rev (dropWhile float_isspace s)))"

text \<open>An optional sign: the rest of the text and whether the sign is a minus.\<close>

fun take_sign :: "string \<Rightarrow> bool \<times> string" where
  "take_sign [] = (False, [])"
| "take_sign (c # cs) =
     (if c = CHR ''-'' then (True, cs)
      else if c = CHR ''+'' then (False, cs)
      else (False, c # cs))"

text \<open>The exponent part: empty, or \<open>e\<close>/\<open>E\<close>, an optional sign and at least one digit.\<close>

definition parse_exponent :: "string \<Rightarrow> int option" where
  "parse_exponent s =
     (case s of
        [] \<Rightarrow> Some 0
      | c # cs \<Rightarrow>
          if c = CHR ''e'' \<or> c = CHR ''E'' then
            (let (neg, ds) = take_sign cs in
             if ds \<noteq> [] \<and> list_all is_digit ds
             then Some (if neg then - int (digits_val ds) else int (digits_val ds))
             else None)
          else None)"

definition decimal_value :: "nat \<Rightarrow> int \<Rightarrow> real" where
  "decimal_value m e =
     (if 0 \<le> e then of_nat m * 10 ^ nat e else of_nat m / 10 ^ nat (- e))"

text \<open>An unsigned decimal literal: digits, an optional point and digits, an exponent.\<close>

definition parse_decimal :: "string \<Rightarrow> real option" where
  "parse_decimal s =
     (let ip = takeWhile is_digit s;
          r1 = dropWhile is_digit s;
          has_point = (r1 \<noteq> [] \<and> hd r1 = CHR ''.'');
          fp = (if has_point then takeWhile is_digit (tl r1) else []);
          r2 = (if has_point then dropWhile is_digit (tl r1) else r1)
      in if ip = [] \<and> fp = [] then None
         else (case parse_exponent r2 of
                 None \<Rightarrow> None
               | Some e \<Rightarrow> Some (decimal_value (digits_val (ip @ fp)) (e - int (length fp)))))"

definition ascii_lower :: "string \<Rightarrow> string" where
  "ascii_lower s = map (\<lambda>c. let n = (of_char c :: nat) in
                             if 65 \<le> n \<and> n \<le> 90 then char_of (n + 32) else c) s"

text \<open>
  \<open>float(s)\<close> for a \<open>str\<close>: \<open>None\<close> stands for \<open>ValueError\<close>, the only exception the
  conversion of a string raises.
\<close>

definition float_of_str :: "string \<Rightarrow> pyfloat option" where
  "float_of_str s =
     (if \<not> underscores_ok None s then None
      else
        let t = float_strip (filter (\<lambda>c. c \<noteq> CHR ''_'') s);
            (neg, body) = take_sign t;
            w = ascii_lower body
        in if w = ''inf'' \<or> w = ''infinity'' then Some (if neg then NegInf else PosInf)
           else if w = ''nan'' then Some NaN
           else (case parse_decimal body of
                   None \<Rightarrow> None
                 | Some v \<Rightarrow>
                     Some (if float_overflow_bound \<le> v
                           then (if neg then NegInf else PosInf)
                           else Fin (if neg then - v else v))))"

text \<open>\<open>float(x)\<close> for a decoded JSON value.\<close>

fun py_float :: "json \<Rightarrow> pyerror + pyfloat" where
  "py_float JNull = Inl TypeError"
| "py_float (JBool b) = Inr (Fin (if b then 1 else 0))"
| "py_float (JInt n) =
     (if float_overflow_bound \<le> \<bar>real_of_int n\<bar> then Inl OverflowError
      else Inr (Fin (real_of_int n)))"
| "py_float (JFloat f) = Inr f"
| "py_float (JStr s) = (case float_of_str s of None \<Rightarrow> Inl ValueError | Some f \<Rightarrow> Inr f)"
| "py_float (JArr xs) = Inl TypeError"
| "py_float (JObj kvs) = Inl TypeError"

section \<open>Price gateway\<close>

subsection \<open>The HTTP session\<close>

text \<open>
  The remote service answers each attempt of a request either not at all (a connection
  level failure) or with a status code and a body; the body is \<open>None\<close> when it is not
  JSON. An \<open>upstream\<close> gives, for every request, the answers to its successive attempts.
\<close>

datatype attempt = ConnectionFailed | Replied nat "json option"

type_synonym params = "(string \<times> string) list"

record request =
  url :: string
  query :: params

type_synonym upstream = "request \<Rightarrow> nat \<Rightarrow> attempt"

text \<open>The subclasses of \<open>requests.RequestException\<close> that a GET can end in.\<close>

datatype request_exception = ConnectionError | RetryError | HTTPError | JSONDecodeError

definition COINGECKO_BASE :: string where
  "COINGECKO_BASE = ''https://api.coingecko.com/api/v3''"

text \<open>\<open>Retry(total=3, backoff_factor=0.5, status_forcelist=[429, 500, 502, 503, 504])\<close>\<close>

definition retry_total :: nat where
  "retry_total = 3"

definition status_forcelist :: "nat list" where
  "status_forcelist = [429, 500, 502, 503, 504]"

text \<open>
  The adapter mounted on the session: attempt \<open>k\<close> is sent with \<open>left\<close> retries remaining.
  A connection failure or a status of the force list is retried while retries remain, and
  ends in an exception once they are used up.
\<close>

fun send :: "(nat \<Rightarrow> attempt) \<Rightarrow> nat \<Rightarrow> nat \<Rightarrow> request_exception + (nat \<times> json option)" where
  "send att k 0 =
     (case att k of
        ConnectionFailed \<Rightarrow> Inl ConnectionError
      | Replied status body \<Rightarrow>
          if status \<in> set status_forcelist then Inl RetryError else Inr (status, body))"
| "send att k (Suc left) =
     (case att k of
        ConnectionFailed \<Rightarrow> send att (Suc k) left
      | Replied status body \<Rightarrow>
          if status \<in> set status_forcelist then send att (Suc k) left else Inr (status, body))"

definition session_get :: "upstream \<Rightarrow> request \<Rightarrow> request_exception + (nat \<times> json option)" where
  "session_get up req = send (up req) 0 retry_total"

text \<open>
  The body of the \<open>try\<close> in \<open>http_get\<close>: \<open>session.get\<close>, then \<open>raise_for_status\<close> (a
  status from 400 to 599 raises \<open>HTTPError\<close>), then \<open>r.json()\<close>, which raises the
  \<open>JSONDecodeError\<close> of \<open>requests\<close>, itself a \<open>RequestException\<close>, on a body that is
  not JSON.
\<close>

definition fetch :: "upstream \<Rightarrow> request \<Rightarrow> request_exception + json" where
  "fetch up req =
     (case session_get up req of
        Inl e \<Rightarrow> Inl e
      | Inr (status, body) \<Rightarrow>
          if 400 \<le> status \<and> status < 600 then Inl HTTPError
          else (case body of None \<Rightarrow> Inl JSONDecodeError | Some j \<Rightarrow> Inr j))"

text \<open>
  Every gateway operation returns its value together with the list of requests it handed
  to the session, in order.
\<close>

definition http_get :: "upstream \<Rightarrow> string \<Rightarrow> params option \<Rightarrow> json \<times> request list" where
  "http_get up u ps =
     (let req = \<lparr>url = u, query = (case ps of None \<Rightarrow> [] | Some p \<Rightarrow> p)\<rparr>
      in (case fetch up req of Inl e \<Rightarrow> JNull | Inr j \<Rightarrow> j, [req]))"

subsection \<open>Operations\<close>

definition get_top_coins :: "upstream \<Rightarrow> json \<times> request list" where
  "get_top_coins up =
     (let u = COINGECKO_BASE @ ''/coins/markets'';
          ps = [(''vs_currency'', ''usd''), (''order'', ''market_cap_desc''),
                (''per_page'', ''20''), (''page'', ''1''), (''sparkline'', ''false''),
                (''price_change_percentage'', ''24h'')];
          (data, reqs) = http_get up u (Some ps)
      in (py_or data (JArr []), reqs))"

text \<open>The argument of \<open>get_simple_prices\<close> is a list of ids or an already joined string.\<close>

datatype ids_arg = IdList "string list" | IdStr string

definition get_simple_prices :: "upstream \<Rightarrow> ids_arg \<Rightarrow> json \<times> request list" where
  "get_simple_prices up ids =
     (let ids' = (case ids of IdList xs \<Rightarrow> join '','' xs | IdStr s \<Rightarrow> s);
          u = COINGECKO_BASE @ ''/simple/price'';
          ps = [(''ids'', ids'), (''vs_currencies'', ''usd'')];
          (data, reqs) = http_get up u (Some ps)
      in (py_or data (JObj []), reqs))"

text \<open>Iterating over an object in a comprehension.\<close>

fun py_iter :: "json \<Rightarrow> pyerror + json list" where
  "py_iter (JArr xs) = Inr xs"
| "py_iter (JObj kvs) = Inr (map (\<lambda>kv. JStr (fst kv)) kvs)"
| "py_iter (JStr s) = Inr (map (\<lambda>c. JStr [c]) s)"
| "py_iter _ = Inl TypeError"

text \<open>A comprehension whose element expression may raise.\<close>

fun comprehension :: "('a \<Rightarrow> pyerror + 'b) \<Rightarrow> 'a list \<Rightarrow> pyerror + 'b list" where
  "comprehension f [] = Inr []"
| "comprehension f (x # xs) =
     (case f x of
        Inl e \<Rightarrow> Inl e
      | Inr y \<Rightarrow> (case comprehension f xs of Inl e \<Rightarrow> Inl e | Inr ys \<Rightarrow> Inr (y # ys)))"

text \<open>
  The two element expressions of \<open>get_btc_chart_7d\<close>, the date label
  \<open>datetime.utcfromtimestamp(p[0] / 1000).strftime("%b %d")\<close> and the value
  \<open>round(p[1], 2)\<close>, are parameters \<open>label_of\<close> and \<open>value_of\<close>.
\<close>

definition get_btc_chart_7d ::
  "upstream \<Rightarrow> (json \<Rightarrow> pyerror + string) \<Rightarrow> (json \<Rightarrow> pyerror + pyfloat) \<Rightarrow>
   (pyerror + (string list \<times> pyfloat list)) \<times> request list" where
  "get_btc_chart_7d up label_of value_of =
     (let u = COINGECKO_BASE @ ''/coins/bitcoin/market_chart'';
          ps = [(''vs_currency'', ''usd''), (''days'', ''7'')];
          (data0, reqs) = http_get up u (Some ps);
          data = py_or data0 (JObj [])
      in (case dict_get data ''prices'' (JArr []) of
            Inl e \<Rightarrow> Inl e
          | Inr prices \<Rightarrow>
              (case py_iter prices of
                 Inl e \<Rightarrow> Inl e
               | Inr pts \<Rightarrow>
                   (case comprehension label_of pts of
                      Inl e \<Rightarrow> Inl e
                    | Inr labels \<Rightarrow>
                        (case comprehension value_of pts of
                           Inl e \<Rightarrow> Inl e
                         | Inr vals \<Rightarrow> Inr (labels, vals)))), reqs))"

section \<open>Portfolio store\<close>

text \<open>
  One row of the table \<open>portfolio\<close>. The text columns hold what \<open>add_coin\<close> binds, always
  a \<open>str\<close>; the columns \<open>quantity\<close>, \<open>current_price\<close> and \<open>last_updated\<close> are nullable as
  the schema declares them. A time stamp is the reading of the UTC clock in microseconds;
  the column stores its \<open>isoformat()\<close> text, which determines it and orders the same way.
\<close>

type_synonym timestamp = nat

record holding =
  row_id :: nat
  coin_id :: string
  name :: string
  symbol :: string
  quantity :: "pyfloat option"
  current_price :: "pyfloat option"
  last_updated :: "timestamp option"

text \<open>
  The table in row order, and the largest row id ever handed out (the table's entry in
  \<open>sqlite_sequence\<close>, kept because the key is \<open>AUTOINCREMENT\<close>).
\<close>

record store =
  rows :: "holding list"
  seq :: nat

text \<open>Binding a \<open>float\<close> to a \<open>REAL\<close> column: SQLite stores a NaN as \<open>NULL\<close>.\<close>

fun sqlite_real :: "pyfloat \<Rightarrow> pyfloat option" where
  "sqlite_real NaN = None"
| "sqlite_real f = Some f"

definition next_rowid :: "store \<Rightarrow> nat" where
  "next_rowid st = Suc (max (seq st) (foldr max (map row_id (rows st)) 0))"

text \<open>\<open>INSERT INTO portfolio (coin_id, name, symbol, quantity, current_price, last_updated)\<close>\<close>

definition sql_insert ::
  "string \<Rightarrow> string \<Rightarrow> string \<Rightarrow> pyfloat \<Rightarrow> pyfloat \<Rightarrow> timestamp \<Rightarrow> store \<Rightarrow> store" where
  "sql_insert c n s q p t st =
     (let i = next_rowid st
      in st\<lparr>rows := rows st @
               [\<lparr>row_id = i, coin_id = c, name = n, symbol = s, quantity = sqlite_real q,
                 current_price = sqlite_real p, last_updated = Some t\<rparr>],
            seq := i\<rparr>)"

text \<open>\<open>UPDATE portfolio SET current_price=?, last_updated=? WHERE coin_id=?\<close>\<close>

definition sql_update_price :: "pyfloat \<Rightarrow> timestamp \<Rightarrow> string \<Rightarrow> holding list \<Rightarrow> holding list" where
  "sql_update_price p t c rs =
     map (\<lambda>r. if coin_id r = c
              then r\<lparr>current_price := sqlite_real p, last_updated := Some t\<rparr> else r) rs"

text \<open>\<open>DELETE FROM portfolio WHERE id=?\<close>\<close>

definition sql_delete :: "nat \<Rightarrow> holding list \<Rightarrow> holding list" where
  "sql_delete i rs = filter (\<lambda>r. row_id r \<noteq> i) rs"

text \<open>
  \<open>SELECT DISTINCT coin_id FROM portfolio\<close>: each coin id once, in the order in which the
  scan of the table first meets it.
\<close>

definition select_distinct_coin_id :: "holding list \<Rightarrow> string list" where
  "select_distinct_coin_id rs = rev (remdups (rev (map coin_id rs)))"

subsection \<open>\<open>refresh_portfolio_prices\<close>\<close>

text \<open>\<open>prices.get(coin_id, {}).get("usd")\<close>\<close>

definition usd_lookup :: "json \<Rightarrow> string \<Rightarrow> pyerror + json" where
  "usd_lookup prices c =
     (case dict_get prices c (JObj []) of
        Inl e \<Rightarrow> Inl e
      | Inr entry \<Rightarrow> dict_get entry ''usd'' JNull)"

text \<open>
  The loop over the ids. The updates are written inside one transaction that is committed
  only after the loop: an exception leaves the loop with \<open>Inl\<close> and nothing is stored.
\<close>

fun refresh_loop :: "json \<Rightarrow> timestamp \<Rightarrow> string list \<Rightarrow> holding list \<Rightarrow> pyerror + holding list" where
  "refresh_loop prices now_iso [] rs = Inr rs"
| "refresh_loop prices now_iso (c # ids) rs =
     (case usd_lookup prices c of
        Inl e \<Rightarrow> Inl e
      | Inr usd_price \<Rightarrow>
          if usd_price = JNull then refresh_loop prices now_iso ids rs
          else (case py_float usd_price of
                  Inl e \<Rightarrow> Inl e
                | Inr p \<Rightarrow> refresh_loop prices now_iso ids (sql_update_price p now_iso c rs)))"

text \<open>
  The result is the outcome (\<open>Inl\<close> an exception that escapes), the store afterwards and
  the requests made. \<open>now_iso\<close> is the one reading of the clock taken before the loop.
\<close>

definition refresh_portfolio_prices ::
  "upstream \<Rightarrow> timestamp \<Rightarrow> store \<Rightarrow> (pyerror + unit) \<times> store \<times> request list" where
  "refresh_portfolio_prices up now_iso st =
     (let ids = select_distinct_coin_id (rows st)
      in if ids = [] then (Inr (), st, [])
         else
           let (prices, reqs) = get_simple_prices up (IdList ids)
           in (case refresh_loop prices now_iso ids (rows st) of
                 Inl e \<Rightarrow> (Inl e, st, reqs)
               | Inr rs \<Rightarrow> (Inr (), st\<lparr>rows := rs\<rparr>, reqs)))"

subsection \<open>The handlers \<open>add_coin\<close> and \<open>delete_coin\<close>\<close>

datatype http_method = GET | HEAD | POST

datatype response = Redirect string | Template string

type_synonym form = "(string \<times> string) list"

text \<open>\<open>request.form.get(key, default)\<close>\<close>

definition form_get :: "form \<Rightarrow> string \<Rightarrow> string \<Rightarrow> string" where
  "form_get f k d = (case map_of f k of None \<Rightarrow> d | Some v \<Rightarrow> v)"

definition add_coin ::
  "upstream \<Rightarrow> timestamp \<Rightarrow> http_method \<Rightarrow> form \<Rightarrow> store \<Rightarrow>
   (pyerror + response) \<times> store \<times> request list" where
  "add_coin up now m f st =
     (if m = POST then
        let c = lower (strip (form_get f ''coin_id'' ''''));
            n = strip (form_get f ''name'' '''');
            s = lower (strip (form_get f ''symbol'' ''''));
            quantity_raw = strip (form_get f ''quantity'' ''0'');
            q = (case float_of_str quantity_raw of None \<Rightarrow> Fin 0 | Some v \<Rightarrow> v);
            (prices, reqs) = get_simple_prices up (IdList [c])
        in (case dict_get prices c (JObj []) of
              Inl e \<Rightarrow> (Inl e, st, reqs)
            | Inr entry \<Rightarrow>
                (case dict_get entry ''usd'' (JFloat (Fin 0)) of
                   Inl e \<Rightarrow> (Inl e, st, reqs)
                 | Inr usd_price \<Rightarrow>
                     (case py_float usd_price of
                        Inl e \<Rightarrow> (Inl e, st, reqs)
                      | Inr p \<Rightarrow> (Inr (Redirect ''/portfolio''), sql_insert c n s q p now st, reqs))))
      else (Inr (Template ''add_coin.html''), st, []))"

text \<open>
  The route \<open>/portfolio/delete/<int:item_id>\<close> accepts every string of digits. Binding the
  id to the statement raises \<open>OverflowError\<close> when it does not fit a 64-bit signed integer,
  before anything is deleted.
\<close>

definition delete_coin :: "nat \<Rightarrow> store \<Rightarrow> (pyerror + response) \<times> store" where
  "delete_coin item_id st =
     (if 2 ^ 63 \<le> item_id then (Inl OverflowError, st)
      else (Inr (Redirect ''/portfolio''), st\<lparr>rows := sql_delete item_id (rows st)\<rparr>))"

section \<open>Notions used in the statements\<close>

text \<open>
  The price that one pass of the refresh loop writes for a coin id: \<open>None\<close> when the
  loop writes nothing for it (no entry, no \<open>usd\<close> key, a \<open>null\<close> price, or a value the
  loop cannot use).
\<close>

definition price_update :: "json \<Rightarrow> string \<Rightarrow> pyfloat option" where
  "price_update prices c =
     (case usd_lookup prices c of
        Inl e \<Rightarrow> None
      | Inr v \<Rightarrow> if v = JNull then None
                 else (case py_float v of Inl e \<Rightarrow> None | Inr p \<Rightarrow> Some p))"

text \<open>A row after a refresh that completed with the price mapping \<open>prices\<close> at time \<open>t\<close>.\<close>

definition refreshed :: "json \<Rightarrow> timestamp \<Rightarrow> holding \<Rightarrow> holding" where
  "refreshed prices t r =
     (case price_update prices (coin_id r) of
        None \<Rightarrow> r
      | Some p \<Rightarrow> r\<lparr>current_price := sqlite_real p, last_updated := Some t\<rparr>)"

text \<open>The price mapping that a refresh of the store \<open>st\<close> obtains from the gateway.\<close>

definition batch_prices :: "upstream \<Rightarrow> store \<Rightarrow> json" where
  "batch_prices up st = fst (get_simple_prices up (IdList (select_distinct_coin_id (rows st))))"

text \<open>
  A price is present for a coin id when the mapping has an entry for the id, the entry has
  a \<open>usd\<close> key and its value is not \<open>None\<close>.
\<close>

definition price_present :: "json \<Rightarrow> string \<Rightarrow> bool" where
  "price_present prices c = (case usd_lookup prices c of Inl e \<Rightarrow> False | Inr v \<Rightarrow> v \<noteq> JNull)"

text \<open>The one request of a batched price lookup for the ids \<open>ids\<close>.\<close>

definition simple_price_request :: "string list \<Rightarrow> request" where
  "simple_price_request ids =
     \<lparr>url = COINGECKO_BASE @ ''/simple/price'',
      query = [(''ids'', join '','' ids), (''vs_currencies'', ''usd'')]\<rparr>"

text \<open>
  An attempt that the adapter retries, and a request all of whose attempts, the first and
  the \<open>retry_total\<close> retries, are of that kind.
\<close>

definition retryable :: "attempt \<Rightarrow> bool" where
  "retryable a =
     (case a of ConnectionFailed \<Rightarrow> True | Replied status body \<Rightarrow> status \<in> set status_forcelist)"

definition retries_exhausted :: "(nat \<Rightarrow> attempt) \<Rightarrow> bool" where
  "retries_exhausted att = list_all (\<lambda>k. retryable (att k)) [0..<Suc retry_total]"

text \<open>
  Reading a request back: the value of its \<open>ids\<close> parameter, and the pieces of a text
  between the occurrences of a separator character (\<open>s.split(d)\<close>).
\<close>

definition ids_param :: "request \<Rightarrow> string" where
  "ids_param req = (case map_of (query req) ''ids'' of None \<Rightarrow> [] | Some v \<Rightarrow> v)"

fun split_on :: "char \<Rightarrow> string \<Rightarrow> string list" where
  "split_on d [] = [[]]"
| "split_on d (c # cs) =
     (if c = d then [] # split_on d cs
      else (case split_on d cs of [] \<Rightarrow> [[c]] | w # ws \<Rightarrow> (c # w) # ws))"

text \<open>The values that \<open>add_coin\<close> binds from the form for the coin id and the quantity.\<close>

definition form_coin_id :: "form \<Rightarrow> string" where
  "form_coin_id f = lower (strip (form_get f ''coin_id'' ''''))"

definition form_quantity :: "form \<Rightarrow> pyfloat" where
  "form_quantity f =
     (case float_of_str (strip (form_get f ''quantity'' ''0'')) of None \<Rightarrow> Fin 0 | Some v \<Rightarrow> v)"

text \<open>
  The operations that change the store, and the store each leaves behind: an operation
  that raises leaves the store it found.
\<close>

datatype operation = Add timestamp http_method form | RefreshAll timestamp | Remove nat

fun apply_operation :: "upstream \<Rightarrow> operation \<Rightarrow> store \<Rightarrow> store" where
  "apply_operation up (Add t m f) st = fst (snd (add_coin up t m f st))"
| "apply_operation up (RefreshAll t) st = fst (snd (refresh_portfolio_prices up t st))"
| "apply_operation up (Remove i) st = snd (delete_coin i st)"

fun is_remove :: "operation \<Rightarrow> bool" where
  "is_remove (Remove i) = True"
| "is_remove _ = False"

text \<open>No row has a \<open>NULL\<close> price, respectively a \<open>NULL\<close> time stamp.\<close>

definition prices_not_null :: "store \<Rightarrow> bool" where
  "prices_not_null st = list_all (\<lambda>r. current_price r \<noteq> None) (rows st)"

definition stamps_not_null :: "store \<Rightarrow> bool" where
  "stamps_not_null st = list_all (\<lambda>r. last_updated r \<noteq> None) (rows st)"

text \<open>No price that a lookup at this upstream yields converts to a NaN.\<close>

definition nan_free :: "upstream \<Rightarrow> bool" where
  "nan_free up = (\<forall>ids c. price_update (fst (get_simple_prices up ids)) c \<noteq> Some NaN)"

text \<open>Some row of the store has the empty string as its coin id.\<close>

definition has_blank :: "store \<Rightarrow> bool" where
  "has_blank st = ([] \<in> coin_id ` set (rows st))"

text \<open>Example data: three holdings, two of them of the same coin.\<close>

definition demo_rows :: "holding list" where
  "demo_rows =
     [\<lparr>row_id = 1, coin_id = ''bitcoin'', name = ''Bitcoin'', symbol = ''btc'',
       quantity = Some (Fin 2), current_price = Some (Fin 100), last_updated = Some 10\<rparr>,
      \<lparr>row_id = 2, coin_id = ''bitcoin'', name = ''Bitcoin'', symbol = ''btc'',
       quantity = Some (Fin 1), current_price = Some (Fin 90), last_updated = Some 20\<rparr>,
      \<lparr>row_id = 3, coin_id = ''ethereum'', name = ''Ethereum'', symbol = ''eth'',
       quantity = Some (Fin 5), current_price = Some (Fin 7), last_updated = Some 30\<rparr>]"

definition demo_store :: store where
  "demo_store = \<lparr>rows = demo_rows, seq = 3\<rparr>"

text \<open>A service that knows the price of bitcoin only, and answers at the first attempt.\<close>

definition demo_upstream :: upstream where
  "demo_upstream req k = Replied 200 (Some (JObj [(''bitcoin'', JObj [(''usd'', JInt 50000)])]))"

text \<open>A service that answers every attempt with status 503.\<close>

definition down_upstream :: upstream where
  "down_upstream req k = Replied 503 None"

text \<open>A service whose price for bitcoin is the text \<open>nan\<close>.\<close>

definition nan_upstream :: upstream where
  "nan_upstream req k = Replied 200 (Some (JObj [(''bitcoin'', JObj [(''usd'', JStr ''nan'')])]))"

definition empty_store :: store where
  "empty_store = \<lparr>rows = [], seq = 0\<rparr>"

text \<open>A submission whose coin id is blank.\<close>

definition blank_form :: form where
  "blank_form = [(''coin_id'', ''  ''), (''quantity'', ''1'')]"

section \<open>Facts about the refresh loop\<close>


text \<open>A loop that completes has rewritten exactly the rows of the ids it went through.\<close>

lemma refresh_loop_rows:
  "refresh_loop prices t ids rs = Inr rs' \<Longrightarrow>
   rs' = map (\<lambda>r. if coin_id r \<in> set ids then refreshed prices t r else r) rs"
proof (induction ids arbitrary: rs)
  case Nil
  then show ?case by simp
next
  case (Cons c ids)
  from Cons.prems obtain v where v: "usd_lookup prices c = Inr v"
    by (auto split: sum.splits)
  show ?case
  proof (cases "v = JNull")
    case True
    with Cons.prems v have "refresh_loop prices t ids rs = Inr rs'" by simp
    from Cons.IH [OF this]
    have "rs' = map (\<lambda>r. if coin_id r \<in> set ids then refreshed prices t r else r) rs" .
    moreover have "price_update prices c = None"
      using v True by (simp add: price_update_def)
    ultimately show ?thesis by (auto simp: refreshed_def)
  next
    case False
    with Cons.prems v obtain p where p: "py_float v = Inr p"
      and run: "refresh_loop prices t ids (sql_update_price p t c rs) = Inr rs'"
      by (auto split: sum.splits)
    have pu: "price_update prices c = Some p"
      using v False p by (simp add: price_update_def)
    from Cons.IH [OF run]
    have "rs' = map (\<lambda>r. if coin_id r \<in> set ids then refreshed prices t r else r)
                    (sql_update_price p t c rs)" .
    then show ?thesis using pu
      by (auto simp: sql_update_price_def refreshed_def)
  qed
qed


text \<open>In a loop that completes, every price that is present is one the loop writes.\<close>

lemma refresh_loop_present:
  "refresh_loop prices t ids rs = Inr rs' \<Longrightarrow> c \<in> set ids \<Longrightarrow>
   usd_lookup prices c = Inr v \<Longrightarrow> v \<noteq> JNull \<Longrightarrow> \<exists>p. price_update prices c = Some p"
proof (induction ids arbitrary: rs)
  case Nil
  then show ?case by simp
next
  case (Cons d ids)
  then show ?case
    by (auto simp: price_update_def split: sum.splits if_splits)
qed

lemma select_distinct_Nil: "select_distinct_coin_id rs = [] \<longleftrightarrow> rs = []"
  by (simp add: select_distinct_coin_id_def)

lemma refresh_err:
  "refresh_portfolio_prices up t st = (Inl e, st', reqs) \<Longrightarrow> st' = st"
  by (auto simp: refresh_portfolio_prices_def Let_def split: if_splits prod.splits sum.splits)

lemma refresh_ok:
  assumes "refresh_portfolio_prices up t st = (Inr u, st', reqs)"
  shows "st' = st\<lparr>rows := map (refreshed (batch_prices up st) t) (rows st)\<rparr>"
proof (cases "rows st = []")
  case True
  with assms show ?thesis
    by (simp add: refresh_portfolio_prices_def select_distinct_Nil)
next
  case False
  let ?ids = "select_distinct_coin_id (rows st)"
  from False have ne: "?ids \<noteq> []" by (simp add: select_distinct_Nil)
  from assms ne obtain rs where run: "refresh_loop (batch_prices up st) t ?ids (rows st) = Inr rs"
    and st': "st' = st\<lparr>rows := rs\<rparr>"
    by (auto simp: refresh_portfolio_prices_def batch_prices_def Let_def
             split: prod.splits sum.splits)
  have "rs = map (\<lambda>r. if coin_id r \<in> set ?ids then refreshed (batch_prices up st) t r else r) (rows st)"
    by (rule refresh_loop_rows [OF run])
  also have "... = map (refreshed (batch_prices up st) t) (rows st)"
    by (rule map_cong) (auto simp: select_distinct_coin_id_def)
  finally show ?thesis using st' by simp
qed

lemma refresh_ok_present:
  assumes "refresh_portfolio_prices up t st = (Inr u, st', reqs)"
    and "r \<in> set (rows st)" and "price_present (batch_prices up st) (coin_id r)"
  shows "\<exists>p. price_update (batch_prices up st) (coin_id r) = Some p"
proof -
  let ?ids = "select_distinct_coin_id (rows st)"
  from assms(2) have ne: "?ids \<noteq> []" and mem: "coin_id r \<in> set ?ids"
    by (auto simp: select_distinct_coin_id_def)
  from assms(1) ne obtain rs where run: "refresh_loop (batch_prices up st) t ?ids (rows st) = Inr rs"
    by (auto simp: refresh_portfolio_prices_def batch_prices_def Let_def
             split: prod.splits sum.splits)
  from assms(3) obtain v where "usd_lookup (batch_prices up st) (coin_id r) = Inr v" "v \<noteq> JNull"
    by (auto simp: price_present_def split: sum.splits)
  with refresh_loop_present [OF run mem] show ?thesis by blast
qed

lemma not_present_no_update: "\<not> price_present prices c \<Longrightarrow> price_update prices c = None"
  by (auto simp: price_present_def price_update_def split: sum.splits)

text \<open>What a present price means for a mapping that is a \<open>dict\<close>.\<close>

lemma price_present_JObj:
  "price_present (JObj kvs) c \<longleftrightarrow>
     (\<exists>e v. map_of kvs c = Some (JObj e) \<and> map_of e ''usd'' = Some v \<and> v \<noteq> JNull)"
proof (cases "map_of kvs c")
  case None
  then show ?thesis by (simp add: price_present_def usd_lookup_def)
next
  case (Some entry)
  then show ?thesis
    by (cases entry) (auto simp: price_present_def usd_lookup_def split: option.splits)
qed


lemma coin_id_refreshed: "coin_id (refreshed prices t r) = coin_id r"
  by (simp add: refreshed_def split: option.splits)


lemma snd_http_get: "snd (http_get up u (Some ps)) = [\<lparr>url = u, query = ps\<rparr>]"
  by (simp add: http_get_def Let_def)

lemma snd_get_simple_prices:
  "snd (get_simple_prices up (IdList ids)) = [simple_price_request ids]"
proof -
  obtain d rq where h: "http_get up (COINGECKO_BASE @ ''/simple/price'')
      (Some [(''ids'', join '','' ids), (''vs_currencies'', ''usd'')]) = (d, rq)"
    by (cases "http_get up (COINGECKO_BASE @ ''/simple/price'')
      (Some [(''ids'', join '','' ids), (''vs_currencies'', ''usd'')])")
  with snd_http_get [of up "COINGECKO_BASE @ ''/simple/price''"
      "[(''ids'', join '','' ids), (''vs_currencies'', ''usd'')]"]
  have "rq = [simple_price_request ids]" by (simp add: simple_price_request_def)
  with h show ?thesis by (simp add: get_simple_prices_def)
qed

lemma refresh_requests:
  "snd (snd (refresh_portfolio_prices up t st)) =
     (if rows st = [] then [] else [simple_price_request (select_distinct_coin_id (rows st))])"
proof (cases "rows st = []")
  case True
  then show ?thesis by (simp add: refresh_portfolio_prices_def select_distinct_Nil)
next
  case False
  let ?ids = "select_distinct_coin_id (rows st)"
  from False have ne: "?ids \<noteq> []" by (simp add: select_distinct_Nil)
  obtain prices rq where g: "get_simple_prices up (IdList ?ids) = (prices, rq)"
    by (cases "get_simple_prices up (IdList ?ids)")
  with snd_get_simple_prices [of up ?ids] have "rq = [simple_price_request ?ids]" by simp
  with g ne False show ?thesis
    by (simp add: refresh_portfolio_prices_def Let_def split: sum.splits)
qed

subsection \<open>The example, evaluated\<close>

lemma retry_total_Suc: "retry_total = Suc (Suc (Suc 0))"
  by (simp add: retry_total_def)

lemmas run_defs = refresh_portfolio_prices_def select_distinct_coin_id_def get_simple_prices_def
  http_get_def fetch_def session_get_def retry_total_Suc status_forcelist_def py_or_def
  usd_lookup_def sql_update_price_def COINGECKO_BASE_def Let_def

lemma demo_batch_prices:
  "batch_prices demo_upstream demo_store = JObj [(''bitcoin'', JObj [(''usd'', JInt 50000)])]"
  by (simp add: batch_prices_def run_defs demo_store_def demo_rows_def demo_upstream_def)

lemma demo_refresh:
  "refresh_portfolio_prices demo_upstream 99 demo_store =
     (Inr (),
      \<lparr>rows =
        [\<lparr>row_id = 1, coin_id = ''bitcoin'', name = ''Bitcoin'', symbol = ''btc'',
          quantity = Some (Fin 2), current_price = Some (Fin 50000), last_updated = Some 99\<rparr>,
         \<lparr>row_id = 2, coin_id = ''bitcoin'', name = ''Bitcoin'', symbol = ''btc'',
          quantity = Some (Fin 1), current_price = Some (Fin 50000), last_updated = Some 99\<rparr>,
         \<lparr>row_id = 3, coin_id = ''ethereum'', name = ''Ethereum'', symbol = ''eth'',
          quantity = Some (Fin 5), current_price = Some (Fin 7), last_updated = Some 30\<rparr>],
       seq = 3\<rparr>,
      [\<lparr>url = ''https://api.coingecko.com/api/v3/simple/price'',
        query = [(''ids'', ''bitcoin,ethereum''), (''vs_currencies'', ''usd'')]\<rparr>])"
  by (simp add: run_defs demo_store_def demo_rows_def demo_upstream_def
      float_overflow_bound_def)


section \<open>Facts about the gateway\<close>

lemma send_exhausted:
  "\<forall>j \<le> n. retryable (att (k + j)) \<Longrightarrow> isl (send att k n)"
proof (induction n arbitrary: k)
  case 0
  then show ?case by (auto simp: retryable_def split: attempt.splits)
next
  case (Suc n)
  have "\<forall>j \<le> n. retryable (att (Suc k + j))"
  proof (intro allI impI)
    fix j assume "j \<le> n"
    then have "Suc j \<le> Suc n" by simp
    with Suc.prems have "retryable (att (k + Suc j))" by blast
    then show "retryable (att (Suc k + j))" by simp
  qed
  then have ih: "isl (send att (Suc k) n)" by (rule Suc.IH)
  from Suc.prems have "retryable (att (k + 0))" by blast
  then have "retryable (att k)" by simp
  with ih show ?case by (auto simp: retryable_def split: attempt.splits)
qed

lemma retries_exhausted_fetch:
  assumes "retries_exhausted (up req)"
  shows "isl (fetch up req)"
proof -
  from assms have "\<forall>j \<le> retry_total. retryable (up req (0 + j))"
    by (auto simp: retries_exhausted_def list_all_iff)
  then have "isl (send (up req) 0 retry_total)" by (rule send_exhausted)
  then show ?thesis
    by (cases "send (up req) 0 retry_total") (simp_all add: fetch_def session_get_def)
qed

lemma http_get_failed: "isl (fetch up \<lparr>url = u, query = (case ps of None \<Rightarrow> [] | Some p \<Rightarrow> p)\<rparr>) \<Longrightarrow> fst (http_get up u ps) = JNull"
  by (cases "fetch up \<lparr>url = u, query = (case ps of None \<Rightarrow> [] | Some p \<Rightarrow> p)\<rparr>") (simp_all add: http_get_def Let_def)

lemma split_on_no_sep: "d \<notin> set x \<Longrightarrow> split_on d x = [x]"
  by (induction x) auto

lemma split_on_append: "d \<notin> set x \<Longrightarrow> split_on d (x @ d # rest) = x # split_on d rest"
  by (induction x) auto

lemma split_join:
  "ids \<noteq> [] \<Longrightarrow> \<forall>c \<in> set ids. d \<notin> set c \<Longrightarrow> split_on d (join [d] ids) = ids"
proof (induction "[d]" ids rule: join.induct)
  case 1
  then show ?case by simp
next
  case (2 x)
  then show ?case by (simp add: split_on_no_sep)
next
  case (3 x y ys)
  then show ?case by (simp add: split_on_append)
qed

section \<open>Facts about \<open>add_coin\<close>\<close>

lemma add_coin_not_POST: "m \<noteq> POST \<Longrightarrow> add_coin up now m f st = (Inr (Template ''add_coin.html''), st, [])"
  by (simp add: add_coin_def)

lemma add_coin_err: "add_coin up now m f st = (Inl e, st', reqs) \<Longrightarrow> st' = st"
  by (auto simp: add_coin_def Let_def split: if_splits prod.splits sum.splits)

lemma add_coin_ok:
  assumes "add_coin up now POST f st = (Inr resp, st', reqs)"
  shows "\<exists>p. st' = sql_insert (form_coin_id f) (strip (form_get f ''name'' ''''))
                 (lower (strip (form_get f ''symbol'' ''''))) (form_quantity f) p now st \<and>
             (p = Fin 0 \<or> price_update (fst (get_simple_prices up (IdList [form_coin_id f]))) (form_coin_id f) = Some p)"
proof -
  let ?c = "form_coin_id f"
  obtain prices rq where g: "get_simple_prices up (IdList [?c]) = (prices, rq)"
    by (cases "get_simple_prices up (IdList [?c])")
  from assms g obtain entry usd_price p where
    e: "dict_get prices ?c (JObj []) = Inr entry"
    and u: "dict_get entry ''usd'' (JFloat (Fin 0)) = Inr usd_price"
    and p: "py_float usd_price = Inr p"
    and st': "st' = sql_insert ?c (strip (form_get f ''name'' ''''))
                 (lower (strip (form_get f ''symbol'' ''''))) (form_quantity f) p now st"
    by (auto simp: add_coin_def Let_def form_coin_id_def form_quantity_def split: sum.splits)
  have "p = Fin 0 \<or> price_update prices ?c = Some p"
  proof (cases entry)
    case (JObj kvs)
    show ?thesis
    proof (cases "map_of kvs ''usd''")
      case None
      with u JObj p show ?thesis by auto
    next
      case (Some v)
      with u JObj have v: "usd_price = v" by simp
      with p have "v \<noteq> JNull" by auto
      with e JObj Some v p show ?thesis
        by (simp add: price_update_def usd_lookup_def)
    qed
  qed (use u in simp_all)
  with st' g show ?thesis by auto
qed

lemma parse_decimal_nonneg: "parse_decimal s = Some v \<Longrightarrow> 0 \<le> v"
  by (auto simp: parse_decimal_def Let_def decimal_value_def split: option.splits if_splits)

lemma take_sign_minus: "take_sign t = (True, b) \<Longrightarrow> CHR ''-'' \<in> set t"
  by (cases t) (auto split: if_splits)

lemma set_float_strip: "set (float_strip s) \<subseteq> set s"
proof -
  have "set (float_strip s) \<subseteq> set (dropWhile float_isspace s)"
    by (auto simp: float_strip_def dest: set_dropWhileD)
  also have "\<dots> \<subseteq> set s" by (auto dest: set_dropWhileD)
  finally show ?thesis .
qed

lemma float_of_str_no_minus:
  assumes "CHR ''-'' \<notin> set s" and "float_of_str s = Some q"
  shows "q = NaN \<or> q = PosInf \<or> (\<exists>v. q = Fin v \<and> 0 \<le> v)"
proof -
  let ?t = "float_strip (filter (\<lambda>c. c \<noteq> CHR ''_'') s)"
  obtain neg body where ts: "take_sign ?t = (neg, body)" by (cases "take_sign ?t")
  have "set ?t \<subseteq> set s" using set_float_strip [of "filter (\<lambda>c. c \<noteq> CHR ''_'') s"] by auto
  with assms(1) have "CHR ''-'' \<notin> set ?t" by auto
  with ts have neg: "\<not> neg" by (cases neg) (auto dest: take_sign_minus)
  from assms(2) ts neg show ?thesis
    by (auto simp: float_of_str_def Let_def split: if_splits option.splits
             dest: parse_decimal_nonneg)
qed



lemma form_get_other: "k \<noteq> k' \<Longrightarrow> form_get ((k', x) # f) k d = form_get f k d"
  by (simp add: form_get_def)

lemma add_coin_outcome_quantity:
  "fst (add_coin up now m ((''quantity'', x) # f) st) =
   fst (add_coin up now m ((''quantity'', y) # f) st)"
  by (simp add: add_coin_def Let_def form_get_other case_prod_beta split: sum.splits)



lemma rows_sql_insert:
  "rows (sql_insert c n s q p t st) =
     rows st @ [\<lparr>row_id = next_rowid st, coin_id = c, name = n, symbol = s,
                 quantity = sqlite_real q, current_price = sqlite_real p, last_updated = Some t\<rparr>]"
  by (simp add: sql_insert_def Let_def)

lemma sqlite_real_nonneg:
  "q = NaN \<or> q = PosInf \<or> (\<exists>v. q = Fin v \<and> 0 \<le> v) \<Longrightarrow>
   sqlite_real q = None \<or> sqlite_real q = Some PosInf \<or> (\<exists>v. sqlite_real q = Some (Fin v) \<and> 0 \<le> v)"
  by (cases q) auto

lemma add_coin_quantity_row:
  assumes "add_coin up now POST f st = (Inr resp, st', reqs)"
    and "raw = strip (form_get f ''quantity'' ''0'')"
  shows "\<exists>r. rows st' = rows st @ [r] \<and>
             quantity r = sqlite_real (case float_of_str raw of None \<Rightarrow> Fin 0 | Some v \<Rightarrow> v) \<and>
             (float_of_str raw = None \<longrightarrow> quantity r = Some (Fin 0)) \<and>
             (CHR ''-'' \<notin> set raw \<longrightarrow>
                quantity r = None \<or> quantity r = Some PosInf \<or>
                (\<exists>v. quantity r = Some (Fin v) \<and> 0 \<le> v))"
proof -
  from add_coin_ok [OF assms(1)] obtain p where
    st': "st' = sql_insert (form_coin_id f) (strip (form_get f ''name'' []))
                 (lower (strip (form_get f ''symbol'' []))) (form_quantity f) p now st"
    by blast
  define r where "r = \<lparr>row_id = next_rowid st, coin_id = form_coin_id f,
             name = strip (form_get f ''name'' []),
             symbol = lower (strip (form_get f ''symbol'' [])),
             quantity = sqlite_real (form_quantity f), current_price = sqlite_real p,
             last_updated = Some now\<rparr>"
  have q: "quantity r = sqlite_real (form_quantity f)" by (simp add: r_def)
  have fq: "form_quantity f = (case float_of_str raw of None \<Rightarrow> Fin 0 | Some v \<Rightarrow> v)"
    using assms(2) by (simp add: form_quantity_def)
  have a: "rows st' = rows st @ [r]" using st' by (simp add: rows_sql_insert r_def)
  have b: "quantity r = sqlite_real (case float_of_str raw of None \<Rightarrow> Fin 0 | Some v \<Rightarrow> v)"
    using q fq by simp
  have c: "float_of_str raw = None \<longrightarrow> quantity r = Some (Fin 0)"
    using b by simp
  have d: "CHR ''-'' \<notin> set raw \<longrightarrow> quantity r = None \<or> quantity r = Some PosInf \<or>
           (\<exists>v. quantity r = Some (Fin v) \<and> 0 \<le> v)"
  proof
    assume nm: "CHR ''-'' \<notin> set raw"
    have "form_quantity f = NaN \<or> form_quantity f = PosInf \<or> (\<exists>v. form_quantity f = Fin v \<and> 0 \<le> v)"
    proof (cases "float_of_str raw")
      case None
      then show ?thesis using fq by simp
    next
      case (Some x)
      from float_of_str_no_minus [OF nm Some] show ?thesis using fq Some by simp
    qed
    from sqlite_real_nonneg [OF this] show "quantity r = None \<or> quantity r = Some PosInf \<or>
           (\<exists>v. quantity r = Some (Fin v) \<and> 0 \<le> v)" using q by simp
  qed
  show ?thesis
    by (rule exI [of _ r]) (intro conjI a b c d)
qed

section \<open>Facts about the operations\<close>

lemma sqlite_real_Some: "p \<noteq> NaN \<Longrightarrow> sqlite_real p \<noteq> None"
  by (cases p) auto

lemma refreshed_stamp: "last_updated r \<noteq> None \<Longrightarrow> last_updated (refreshed prices t r) \<noteq> None"
  by (simp add: refreshed_def split: option.splits)

lemma refreshed_price:
  assumes "current_price r \<noteq> None" and "price_update prices (coin_id r) \<noteq> Some NaN"
  shows "current_price (refreshed prices t r) \<noteq> None"
proof (cases "price_update prices (coin_id r)")
  case None
  with assms(1) show ?thesis by (simp add: refreshed_def)
next
  case (Some p)
  with assms(2) have "p \<noteq> NaN" by simp
  then have "sqlite_real p \<noteq> None" by (rule sqlite_real_Some)
  with Some show ?thesis by (simp add: refreshed_def)
qed

lemma refresh_rows_cases:
  "rows (fst (snd (refresh_portfolio_prices up t st))) = rows st \<or>
   rows (fst (snd (refresh_portfolio_prices up t st))) = map (refreshed (batch_prices up st) t) (rows st)"
proof -
  obtain out st' reqs where r: "refresh_portfolio_prices up t st = (out, st', reqs)"
    by (cases "refresh_portfolio_prices up t st")
  show ?thesis
  proof (cases out)
    case (Inl e)
    with r have "st' = st" by (auto dest: refresh_err)
    with r show ?thesis by simp
  next
    case (Inr u)
    with r have "st' = st\<lparr>rows := map (refreshed (batch_prices up st) t) (rows st)\<rparr>"
      by (auto dest: refresh_ok)
    with r show ?thesis by simp
  qed
qed

lemma add_rows_cases:
  "rows (fst (snd (add_coin up t m f st))) = rows st \<or>
   (\<exists>p. rows (fst (snd (add_coin up t m f st))) =
      rows st @ [\<lparr>row_id = next_rowid st, coin_id = form_coin_id f,
                  name = strip (form_get f ''name'' []),
                  symbol = lower (strip (form_get f ''symbol'' [])),
                  quantity = sqlite_real (form_quantity f), current_price = sqlite_real p,
                  last_updated = Some t\<rparr>] \<and>
      (p = Fin 0 \<or> price_update (fst (get_simple_prices up (IdList [form_coin_id f]))) (form_coin_id f) = Some p))"
proof (cases "m = POST")
  case False
  then show ?thesis by (simp add: add_coin_not_POST)
next
  case True
  obtain out st' reqs where r: "add_coin up t POST f st = (out, st', reqs)"
    by (cases "add_coin up t POST f st")
  show ?thesis
  proof (cases out)
    case (Inl e)
    with r have "st' = st" by (auto dest: add_coin_err)
    with r True show ?thesis by simp
  next
    case (Inr resp)
    with r add_coin_ok [of up t f st resp st' reqs] obtain p where
      "st' = sql_insert (form_coin_id f) (strip (form_get f ''name'' []))
                 (lower (strip (form_get f ''symbol'' []))) (form_quantity f) p t st"
      "p = Fin 0 \<or> price_update (fst (get_simple_prices up (IdList [form_coin_id f]))) (form_coin_id f) = Some p"
      by blast
    with r True show ?thesis
      by (intro disjI2 exI [of _ p]) (simp add: rows_sql_insert)
  qed
qed

lemma demo_nan_free: "nan_free demo_upstream"
proof -
  have g: "fst (get_simple_prices demo_upstream ids) = JObj [(''bitcoin'', JObj [(''usd'', JInt 50000)])]" for ids
    by (simp add: get_simple_prices_def http_get_def fetch_def session_get_def retry_total_Suc
        status_forcelist_def py_or_def demo_upstream_def Let_def)
  show ?thesis
    by (auto simp: nan_free_def g price_update_def usd_lookup_def float_overflow_bound_def
        split: sum.splits if_splits)
qed

lemma form_coin_id_blank: "strip (form_get f ''coin_id'' []) = [] \<Longrightarrow> form_coin_id f = []"
  by (simp add: form_coin_id_def lower_def)

lemma has_blank_refresh_request:
  assumes "has_blank s"
  shows "snd (snd (refresh_portfolio_prices up t s)) =
           [simple_price_request (select_distinct_coin_id (rows s))] \<and>
         [] \<in> set (select_distinct_coin_id (rows s))"
proof -
  from assms have ne: "rows s \<noteq> []" by (auto simp: has_blank_def)
  from assms have "[] \<in> set (select_distinct_coin_id (rows s))"
    by (simp add: has_blank_def select_distinct_coin_id_def)
  with refresh_requests [of up t s] ne show ?thesis by simp
qed

lemma has_blank_preserved:
  assumes "has_blank s" and "\<not> is_remove op"
  shows "has_blank (apply_operation up op s)"
proof (cases op)
  case (Add t m f)
  from add_rows_cases [of up t m f s] assms(1) show ?thesis
    unfolding Add has_blank_def by auto
next
  case (RefreshAll t)
  have "coin_id ` set (map (refreshed (batch_prices up s) t) (rows s)) = coin_id ` set (rows s)"
    by (auto simp: coin_id_refreshed image_iff)
  with refresh_rows_cases [of up t s] assms(1) show ?thesis
    unfolding RefreshAll has_blank_def by auto
next
  case (Remove i)
  with assms(2) show ?thesis by simp
qed

lemma add_coin_no_entry:
  assumes "fst (get_simple_prices up (IdList [c])) = JObj kvs" and "map_of kvs c = None"
    and "form_coin_id f = c"
  shows "fst (add_coin up now POST f st) = Inr (Redirect ''/portfolio'')"
proof -
  obtain prices rq where g: "get_simple_prices up (IdList [c]) = (prices, rq)"
    by (cases "get_simple_prices up (IdList [c])")
  with assms(1) have p: "prices = JObj kvs" by simp
  from assms(3) have c: "lower (strip (form_get f ''coin_id'' [])) = c"
    by (simp add: form_coin_id_def)
  show ?thesis
    using g p assms(2) c by (simp add: add_coin_def Let_def)
qed

section \<open>More evaluated examples\<close>

lemmas form_defs = add_coin_def form_get_def strip_def py_isspace_def lower_def lower_char_def
  sql_insert_def next_rowid_def

lemmas float_defs = float_of_str_def float_strip_def float_isspace_def is_digit_def
  parse_decimal_def parse_exponent_def decimal_value_def digits_val_def digit_val_def
  ascii_lower_def float_overflow_bound_def

lemma float_minus_five: "float_of_str ''-5'' = Some (Fin (- 5))"
  by (simp add: float_defs)

lemma float_abc: "float_of_str ''abc'' = None"
  by (simp add: float_defs)







lemma demo_add_minus:
  "add_coin demo_upstream 5 POST [(''coin_id'', ''bitcoin''), (''quantity'', ''-5'')] empty_store =
     (Inr (Redirect ''/portfolio''),
      \<lparr>rows = [\<lparr>row_id = 1, coin_id = ''bitcoin'', name = [], symbol = [],
                quantity = Some (Fin (- 5)), current_price = Some (Fin 50000),
                last_updated = Some 5\<rparr>],
       seq = 1\<rparr>,
      [\<lparr>url = ''https://api.coingecko.com/api/v3/simple/price'',
        query = [(''ids'', ''bitcoin''), (''vs_currencies'', ''usd'')]\<rparr>])"
  by (simp add: form_defs float_defs run_defs demo_upstream_def empty_store_def)

lemma demo_add_abc:
  "add_coin demo_upstream 5 POST [(''coin_id'', ''bitcoin''), (''quantity'', ''abc'')] empty_store =
     (Inr (Redirect ''/portfolio''),
      \<lparr>rows = [\<lparr>row_id = 1, coin_id = ''bitcoin'', name = [], symbol = [],
                quantity = Some (Fin 0), current_price = Some (Fin 50000),
                last_updated = Some 5\<rparr>],
       seq = 1\<rparr>,
      [\<lparr>url = ''https://api.coingecko.com/api/v3/simple/price'',
        query = [(''ids'', ''bitcoin''), (''vs_currencies'', ''usd'')]\<rparr>])"
  by (simp add: form_defs float_defs run_defs demo_upstream_def empty_store_def)

lemma demo_add_nan:
  "add_coin nan_upstream 5 POST [(''coin_id'', ''bitcoin''), (''quantity'', ''2'')] empty_store =
     (Inr (Redirect ''/portfolio''),
      \<lparr>rows = [\<lparr>row_id = 1, coin_id = ''bitcoin'', name = [], symbol = [],
                quantity = Some (Fin 2), current_price = None,
                last_updated = Some 5\<rparr>],
       seq = 1\<rparr>,
      [\<lparr>url = ''https://api.coingecko.com/api/v3/simple/price'',
        query = [(''ids'', ''bitcoin''), (''vs_currencies'', ''usd'')]\<rparr>])"
  by (simp add: form_defs float_defs run_defs nan_upstream_def empty_store_def)

lemma demo_add_blank:
  "add_coin demo_upstream 5 POST [(''coin_id'', ''  ''), (''quantity'', ''1'')] empty_store =
     (Inr (Redirect ''/portfolio''),
      \<lparr>rows = [\<lparr>row_id = 1, coin_id = [], name = [], symbol = [],
                quantity = Some (Fin 1), current_price = Some (Fin 0),
                last_updated = Some 5\<rparr>],
       seq = 1\<rparr>,
      [\<lparr>url = ''https://api.coingecko.com/api/v3/simple/price'',
        query = [(''ids'', []), (''vs_currencies'', ''usd'')]\<rparr>])"
  by (simp add: form_defs float_defs run_defs demo_upstream_def empty_store_def)

section \<open>The gateway\<close>

text \<open>
  C7. When the upstream fails for every request, because all the attempts the retry
  policy allows are used up or because the GET ends in any other request error, each
  gateway operation returns its empty default and raises nothing: \<open>http_get\<close> returns
  \<open>None\<close>, \<open>get_top_coins\<close> the empty list, \<open>get_simple_prices\<close> the empty mapping and
  \<open>get_btc_chart_7d\<close> the pair of two empty lists.
\<close>

theorem gateway_failure_defaults:
  assumes "\<forall>req. retries_exhausted (up req) \<or> isl (fetch up req)"
  shows "fst (http_get up u ps) = JNull \<and>
         fst (get_top_coins up) = JArr [] \<and>
         fst (get_simple_prices up ids) = JObj [] \<and>
         fst (get_btc_chart_7d up label_of value_of) = Inr ([], [])"
proof -
  from assms have f: "isl (fetch up req)" for req
    using retries_exhausted_fetch [of up req] by blast
  have h: "fst (http_get up v qs) = JNull" for v qs
    by (rule http_get_failed) (rule f)
  have a: "fst (get_top_coins up) = JArr []"
    by (simp add: get_top_coins_def Let_def py_or_def case_prod_beta h)
  have b: "fst (get_simple_prices up ids) = JObj []"
    by (simp add: get_simple_prices_def Let_def py_or_def case_prod_beta h)
  have c: "fst (get_btc_chart_7d up label_of value_of) = Inr ([], [])"
    by (simp add: get_btc_chart_7d_def Let_def py_or_def case_prod_beta h)
  from h a b c show ?thesis by simp
qed

theorem gateway_failure_defaults_witness:
  "retries_exhausted (down_upstream \<lparr>url = ''u'', query = []\<rparr>) \<and>
   fst (http_get down_upstream ''u'' None) = JNull \<and>
   fst (get_top_coins down_upstream) = JArr [] \<and>
   fst (get_simple_prices down_upstream (IdList [''bitcoin''])) = JObj [] \<and>
   fst (get_btc_chart_7d down_upstream (\<lambda>p. Inr ''Jan 01'') (\<lambda>p. Inr (Fin 1))) = Inr ([], [])"
proof -
  have e: "retries_exhausted (down_upstream req)" for req
    by (simp add: retries_exhausted_def list_all_iff retryable_def down_upstream_def
        status_forcelist_def)
  then have h: "\<forall>req. retries_exhausted (down_upstream req) \<or> isl (fetch down_upstream req)"
    by simp
  from gateway_failure_defaults [OF h] e show ?thesis by simp
qed

text \<open>
  C3 as stated fails: \<open>get_simple_prices\<close> does not deduplicate. Called with the list
  bitcoin, bitcoin it sends the parameter \<open>bitcoin,bitcoin\<close>, in which the id occurs twice.
\<close>

theorem get_simple_prices_duplicates_counterexample:
  "ids_param (hd (snd (get_simple_prices demo_upstream (IdList [''bitcoin'', ''bitcoin''])))) =
     ''bitcoin,bitcoin'' \<and>
   split_on (CHR '','') ''bitcoin,bitcoin'' = [''bitcoin'', ''bitcoin''] \<and>
   \<not> distinct (split_on (CHR '','') ''bitcoin,bitcoin'')"
  by (simp add: snd_get_simple_prices ids_param_def simple_price_request_def)

text \<open>
  C3, amended. For every list of coin ids, \<open>get_simple_prices\<close> makes a single request
  whose \<open>ids\<close> parameter is the ids joined by commas in the order given, without
  deduplication: when the list is not empty and no id contains a comma, splitting the
  parameter at the commas gives back the list, so that an id occurs in the parameter as
  often as in the list.
\<close>

theorem get_simple_prices_joins_ids:
  "snd (get_simple_prices up (IdList ids)) = [simple_price_request ids] \<and>
   ids_param (simple_price_request ids) = join '','' ids \<and>
   (ids \<noteq> [] \<and> (\<forall>c \<in> set ids. CHR '','' \<notin> set c)
      \<longrightarrow> split_on (CHR '','') (ids_param (simple_price_request ids)) = ids)"
  using split_join [of ids "CHR '',''"]
  by (simp add: snd_get_simple_prices ids_param_def simple_price_request_def)

theorem get_simple_prices_joins_ids_witness:
  "snd (get_simple_prices demo_upstream (IdList [''bitcoin'', ''ethereum''])) =
     [simple_price_request [''bitcoin'', ''ethereum'']] \<and>
   ids_param (simple_price_request [''bitcoin'', ''ethereum'']) = ''bitcoin,ethereum'' \<and>
   split_on (CHR '','') (ids_param (simple_price_request [''bitcoin'', ''ethereum''])) =
     [''bitcoin'', ''ethereum'']"
  using get_simple_prices_joins_ids [of demo_upstream "[''bitcoin'', ''ethereum'']"]
  by simp

section \<open>Removing a holding\<close>




section \<open>Refreshing the prices\<close>

text \<open>
  C1. A holding whose coin id has no present price in the batched price result of a
  refresh (the id is absent from the result, or its entry has no \<open>usd\<close> price) is left
  as it was by that refresh, whatever the outcome: the table keeps its length and the row
  is the same row, so \<open>current_price\<close> and \<open>last_updated\<close> are unchanged. Only rows whose
  coin id has a present price are rewritten.
\<close>

theorem refresh_keeps_unpriced_rows:
  assumes "refresh_portfolio_prices up t st = (out, st', reqs)"
    and "i < length (rows st)"
    and "\<not> price_present (batch_prices up st) (coin_id (rows st ! i))"
  shows "length (rows st') = length (rows st) \<and> rows st' ! i = rows st ! i"
proof (cases out)
  case (Inl e)
  with assms(1) have "st' = st" by (auto dest: refresh_err)
  then show ?thesis by simp
next
  case (Inr u)
  with assms(1) have "st' = st\<lparr>rows := map (refreshed (batch_prices up st) t) (rows st)\<rparr>"
    by (auto dest: refresh_ok)
  then show ?thesis using assms(2,3)
    by (simp add: refreshed_def not_present_no_update)
qed

theorem refresh_keeps_unpriced_rows_witness:
  "\<not> price_present (batch_prices demo_upstream demo_store) (coin_id (rows demo_store ! 2)) \<and>
   rows (fst (snd (refresh_portfolio_prices demo_upstream 99 demo_store))) ! 2 =
     \<lparr>row_id = 3, coin_id = ''ethereum'', name = ''Ethereum'', symbol = ''eth'',
      quantity = Some (Fin 5), current_price = Some (Fin 7), last_updated = Some 30\<rparr> \<and>
   current_price (rows (fst (snd (refresh_portfolio_prices demo_upstream 99 demo_store))) ! 0) =
     Some (Fin 50000)"
proof -
  have i: "2 < length (rows demo_store)"
    by (simp add: demo_store_def demo_rows_def)
  have r: "rows demo_store ! 2 =
     \<lparr>row_id = 3, coin_id = ''ethereum'', name = ''Ethereum'', symbol = ''eth'',
      quantity = Some (Fin 5), current_price = Some (Fin 7), last_updated = Some 30\<rparr>"
    by (simp add: demo_store_def demo_rows_def)
  have np: "\<not> price_present (batch_prices demo_upstream demo_store) (coin_id (rows demo_store ! 2))"
    by (simp add: r demo_batch_prices price_present_JObj)
  from refresh_keeps_unpriced_rows [OF demo_refresh i np]
  have a: "rows (fst (snd (refresh_portfolio_prices demo_upstream 99 demo_store))) ! 2 =
        rows demo_store ! 2"
    by (simp add: demo_refresh)
  have b: "current_price (rows (fst (snd (refresh_portfolio_prices demo_upstream 99 demo_store))) ! 0) =
     Some (Fin 50000)"
    by (simp add: demo_refresh)
  from np a b r show ?thesis by simp
qed

text \<open>
  C5. Within one refresh every row that is updated receives the same \<open>last_updated\<close>
  value, the single clock reading \<open>t\<close> of that call: a row either is left as it was or
  carries \<open>t\<close>, and when the refresh completes every row whose coin id has a present
  price carries \<open>t\<close>.
\<close>

theorem refresh_single_timestamp:
  assumes "refresh_portfolio_prices up t st = (out, st', reqs)"
    and "i < length (rows st)"
  shows "(rows st' ! i = rows st ! i \<or> last_updated (rows st' ! i) = Some t) \<and>
         (out = Inr () \<and> price_present (batch_prices up st) (coin_id (rows st ! i))
            \<longrightarrow> last_updated (rows st' ! i) = Some t)"
proof (cases out)
  case (Inl e)
  with assms(1) have "st' = st" by (auto dest: refresh_err)
  then show ?thesis using Inl by simp
next
  case (Inr u)
  with assms(1) have st': "st' = st\<lparr>rows := map (refreshed (batch_prices up st) t) (rows st)\<rparr>"
    by (auto dest: refresh_ok)
  have a: "rows st' ! i = rows st ! i \<or> last_updated (rows st' ! i) = Some t"
    using st' assms(2) by (auto simp: refreshed_def split: option.splits)
  have b: "last_updated (rows st' ! i) = Some t"
    if "price_present (batch_prices up st) (coin_id (rows st ! i))"
  proof -
    from assms(2) have "rows st ! i \<in> set (rows st)" by simp
    with refresh_ok_present [of up t st u st' reqs "rows st ! i"] assms(1) Inr that
    obtain p where "price_update (batch_prices up st) (coin_id (rows st ! i)) = Some p" by auto
    then show ?thesis using st' assms(2) by (simp add: refreshed_def)
  qed
  from a b show ?thesis by blast
qed

theorem refresh_single_timestamp_witness:
  "last_updated (rows (fst (snd (refresh_portfolio_prices demo_upstream 99 demo_store))) ! 0) = Some 99 \<and>
   last_updated (rows (fst (snd (refresh_portfolio_prices demo_upstream 99 demo_store))) ! Suc 0) = Some 99 \<and>
   price_present (batch_prices demo_upstream demo_store) (coin_id (rows demo_store ! 0)) \<and>
   price_present (batch_prices demo_upstream demo_store) (coin_id (rows demo_store ! Suc 0))"
proof -
  have i0: "0 < length (rows demo_store)" and i1: "Suc 0 < length (rows demo_store)"
    by (simp_all add: demo_store_def demo_rows_def)
  have c0: "coin_id (rows demo_store ! 0) = ''bitcoin''"
    and c1: "coin_id (rows demo_store ! Suc 0) = ''bitcoin''"
    by (simp_all add: demo_store_def demo_rows_def)
  have p0: "price_present (batch_prices demo_upstream demo_store) (coin_id (rows demo_store ! 0))"
    and p1: "price_present (batch_prices demo_upstream demo_store) (coin_id (rows demo_store ! Suc 0))"
    by (simp_all add: c0 c1 demo_batch_prices price_present_JObj)
  from refresh_single_timestamp [OF demo_refresh i0] p0
  have a: "last_updated (rows (fst (snd (refresh_portfolio_prices demo_upstream 99 demo_store))) ! 0) = Some 99"
    by (simp add: demo_refresh)
  from refresh_single_timestamp [OF demo_refresh i1] p1
  have b: "last_updated (rows (fst (snd (refresh_portfolio_prices demo_upstream 99 demo_store))) ! Suc 0) = Some 99"
    by (simp add: demo_refresh)
  from a b p0 p1 show ?thesis by simp
qed



text \<open>
  C2. For every store, the refresh reads the distinct list of the coin ids that occur in
  the table. When that list is empty it makes no request at all, returns normally and
  leaves the store as it is; otherwise it makes exactly one request, the batched price
  lookup for the whole list. When the refresh completes, two rows of the same coin whose
  price is present both carry that one price. With the holdings bitcoin, bitcoin and
  ethereum the lookup is for the two ids \<open>bitcoin,ethereum\<close> and both bitcoin rows
  receive the same price.
\<close>

theorem refresh_one_batched_call:
  assumes "refresh_portfolio_prices up t st = (out, st', reqs)"
    and "ids = select_distinct_coin_id (rows st)"
  shows "distinct ids \<and> set ids = coin_id ` set (rows st) \<and>
         (ids = [] \<longrightarrow> reqs = [] \<and> out = Inr () \<and> st' = st) \<and>
         (ids \<noteq> [] \<longrightarrow> reqs = [simple_price_request ids]) \<and>
         (\<forall>i j. i < length (rows st) \<and> j < length (rows st) \<and>
                coin_id (rows st ! i) = coin_id (rows st ! j) \<and> out = Inr () \<and>
                price_present (batch_prices up st) (coin_id (rows st ! i))
            \<longrightarrow> (\<exists>p. price_update (batch_prices up st) (coin_id (rows st ! i)) = Some p \<and>
                     current_price (rows st' ! i) = sqlite_real p \<and>
                     current_price (rows st' ! j) = sqlite_real p))"
proof -
  have a: "distinct ids \<and> set ids = coin_id ` set (rows st)"
    using assms(2) by (simp add: select_distinct_coin_id_def)
  have b: "ids = [] \<longrightarrow> reqs = [] \<and> out = Inr () \<and> st' = st"
    using assms by (auto simp: refresh_portfolio_prices_def)
  have c: "ids \<noteq> [] \<longrightarrow> reqs = [simple_price_request ids]"
    using refresh_requests [of up t st] assms by (auto simp: select_distinct_Nil)
  have d: "\<exists>p. price_update (batch_prices up st) (coin_id (rows st ! i)) = Some p \<and>
                     current_price (rows st' ! i) = sqlite_real p \<and>
                     current_price (rows st' ! j) = sqlite_real p"
    if h: "i < length (rows st)" "j < length (rows st)"
       "coin_id (rows st ! i) = coin_id (rows st ! j)" "out = Inr ()"
       "price_present (batch_prices up st) (coin_id (rows st ! i))" for i j
  proof -
    from assms(1) h(4) have st': "st' = st\<lparr>rows := map (refreshed (batch_prices up st) t) (rows st)\<rparr>"
      by (auto dest: refresh_ok)
    from h(1) have "rows st ! i \<in> set (rows st)" by simp
    with refresh_ok_present [of up t st "()" st' reqs "rows st ! i"] assms(1) h(4,5)
    obtain p where p: "price_update (batch_prices up st) (coin_id (rows st ! i)) = Some p" by auto
    with st' h(1,2,3) show ?thesis by (simp add: refreshed_def)
  qed
  from a b c d show ?thesis by blast
qed

theorem refresh_one_batched_call_witness:
  "select_distinct_coin_id (rows demo_store) = [''bitcoin'', ''ethereum''] \<and>
   snd (snd (refresh_portfolio_prices demo_upstream 99 demo_store)) =
     [simple_price_request [''bitcoin'', ''ethereum'']] \<and>
   join '','' [''bitcoin'', ''ethereum''] = ''bitcoin,ethereum'' \<and>
   current_price (rows (fst (snd (refresh_portfolio_prices demo_upstream 99 demo_store))) ! 0) =
     Some (Fin 50000) \<and>
   current_price (rows (fst (snd (refresh_portfolio_prices demo_upstream 99 demo_store))) ! Suc 0) =
     Some (Fin 50000)"
proof -
  have ids: "select_distinct_coin_id (rows demo_store) = [''bitcoin'', ''ethereum'']"
    by (simp add: select_distinct_coin_id_def demo_store_def demo_rows_def)
  from refresh_one_batched_call [OF demo_refresh ids [symmetric]]
  have a: "[\<lparr>url = ''https://api.coingecko.com/api/v3/simple/price'',
          query = [(''ids'', ''bitcoin,ethereum''), (''vs_currencies'', ''usd'')]\<rparr>] =
        [simple_price_request [''bitcoin'', ''ethereum'']]"
    by simp
  have b: "join '','' [''bitcoin'', ''ethereum''] = ''bitcoin,ethereum''" by simp
  from ids a b show ?thesis
    by (simp add: demo_refresh)
qed

section \<open>Adding a holding\<close>

text \<open>
  C4 as stated fails: the stored quantity is not always non-negative. The quantity text
  \<open>-5\<close> parses, and the holding is stored with the quantity \<open>-5.0\<close>.
\<close>

theorem add_coin_negative_quantity_counterexample:
  "float_of_str ''-5'' = Some (Fin (- 5)) \<and>
   quantity (last (rows (fst (snd (add_coin demo_upstream 5 POST
      [(''coin_id'', ''bitcoin''), (''quantity'', ''-5'')] empty_store))))) = Some (Fin (- 5))"
  by (simp add: demo_add_minus float_minus_five)

text \<open>
  C4, amended. For every quantity text, a submission that \<open>add_coin\<close> completes stores
  one new holding whose quantity is the value \<open>float\<close> parses from the stripped text, and
  \<open>0.0\<close> when the text does not parse: the parse failure is caught and never raised. The
  value is not always a non-negative real, the sign is the one written in the text: when
  the text contains no minus sign the stored quantity is a non-negative number, positive
  infinity, or \<open>NULL\<close> (the way a NaN is stored).
\<close>

theorem add_coin_stores_parsed_quantity:
  "fst (add_coin up now m ((''quantity'', x) # f) st) =
     fst (add_coin up now m ((''quantity'', ''0'') # f) st) \<and>
   (add_coin up now POST f st = (Inr resp, st', reqs) \<longrightarrow>
      (\<exists>r. rows st' = rows st @ [r] \<and>
           quantity r =
             sqlite_real (case float_of_str (strip (form_get f ''quantity'' ''0'')) of
                            None \<Rightarrow> Fin 0 | Some v \<Rightarrow> v) \<and>
           (float_of_str (strip (form_get f ''quantity'' ''0'')) = None \<longrightarrow>
              quantity r = Some (Fin 0)) \<and>
           (CHR ''-'' \<notin> set (strip (form_get f ''quantity'' ''0'')) \<longrightarrow>
              quantity r = None \<or> quantity r = Some PosInf \<or>
              (\<exists>v. quantity r = Some (Fin v) \<and> 0 \<le> v))))"
  using add_coin_outcome_quantity [of up now m x f st "''0''"]
    add_coin_quantity_row [of up now f st resp st' reqs "strip (form_get f ''quantity'' ''0'')"]
  by blast

theorem add_coin_stores_parsed_quantity_witness:
  "float_of_str (strip (form_get [(''coin_id'', ''bitcoin''), (''quantity'', ''abc'')] ''quantity'' ''0'')) = None \<and>
   fst (add_coin demo_upstream 5 POST [(''quantity'', ''abc''), (''coin_id'', ''bitcoin'')] empty_store) =
     fst (add_coin demo_upstream 5 POST [(''quantity'', ''0''), (''coin_id'', ''bitcoin'')] empty_store) \<and>
   quantity (last (rows (fst (snd (add_coin demo_upstream 5 POST
      [(''coin_id'', ''bitcoin''), (''quantity'', ''abc'')] empty_store))))) = Some (Fin 0)"
proof -
  let ?f = "[(''coin_id'', ''bitcoin''), (''quantity'', ''abc'')]"
  let ?a = "add_coin demo_upstream 5 POST ?f empty_store"
  have raw: "strip (form_get ?f ''quantity'' ''0'') = ''abc''"
    by (simp add: form_get_def strip_def py_isspace_def)
  have none: "float_of_str (strip (form_get ?f ''quantity'' ''0'')) = None"
    by (simp only: raw float_abc)
  have run: "?a = (Inr (Redirect ''/portfolio''), fst (snd ?a), snd (snd ?a))"
    by (simp add: demo_add_abc)
  from add_coin_stores_parsed_quantity [of demo_upstream 5 POST "''abc''"
      "[(''coin_id'', ''bitcoin'')]" empty_store]
  have out: "fst (add_coin demo_upstream 5 POST [(''quantity'', ''abc''), (''coin_id'', ''bitcoin'')] empty_store) =
     fst (add_coin demo_upstream 5 POST [(''quantity'', ''0''), (''coin_id'', ''bitcoin'')] empty_store)"
    by blast
  from add_coin_stores_parsed_quantity [of demo_upstream 5 POST "''abc''" ?f empty_store
      "Redirect ''/portfolio''" "fst (snd ?a)" "snd (snd ?a)"] run none
  obtain r where r: "rows (fst (snd ?a)) = rows empty_store @ [r]"
    and q: "quantity r = Some (Fin 0)"
    by blast
  from r have "last (rows (fst (snd ?a))) = r"
    by simp
  with q none out show ?thesis by simp
qed

text \<open>
  C10. \<open>add_coin\<close> does not check that the coin id is not empty. For a submission whose
  \<open>coin_id\<close> field is missing or blank, a submission that the handler completes appends
  a holding whose coin id is the empty string, and the handler does complete whenever the
  price lookup yields a mapping without an entry for the empty id (as a failed lookup
  does). While such a row is in the store, which every operation other than a removal
  preserves, every refresh makes its one batched request for a distinct id list that
  contains the empty string.
\<close>

theorem add_coin_blank_coin_id:
  assumes "strip (form_get f ''coin_id'' []) = []"
  shows "(add_coin up now POST f st = (Inr resp, st', reqs) \<longrightarrow>
            (\<exists>r. rows st' = rows st @ [r] \<and> coin_id r = []) \<and> has_blank st') \<and>
         (fst (get_simple_prices up (IdList [[]])) = JObj kvs \<and> map_of kvs [] = None \<longrightarrow>
            fst (add_coin up now POST f st) = Inr (Redirect ''/portfolio'')) \<and>
         (has_blank s \<and> \<not> is_remove op \<longrightarrow> has_blank (apply_operation up' op s)) \<and>
         (has_blank s \<longrightarrow>
            snd (snd (refresh_portfolio_prices up' t s)) =
              [simple_price_request (select_distinct_coin_id (rows s))] \<and>
            [] \<in> set (select_distinct_coin_id (rows s)))"
proof -
  from assms have c: "form_coin_id f = []" by (rule form_coin_id_blank)
  have a: "(\<exists>r. rows st' = rows st @ [r] \<and> coin_id r = []) \<and> has_blank st'"
    if h: "add_coin up now POST f st = (Inr resp, st', reqs)"
  proof -
    from add_coin_ok [OF h] obtain p where
      "st' = sql_insert (form_coin_id f) (strip (form_get f ''name'' []))
                 (lower (strip (form_get f ''symbol'' []))) (form_quantity f) p now st"
      by blast
    with c have "rows st' = rows st @ [\<lparr>row_id = next_rowid st, coin_id = [],
             name = strip (form_get f ''name'' []),
             symbol = lower (strip (form_get f ''symbol'' [])),
             quantity = sqlite_real (form_quantity f), current_price = sqlite_real p,
             last_updated = Some now\<rparr>]"
      by (simp add: rows_sql_insert)
    then show ?thesis by (auto simp: has_blank_def image_iff)
  qed
  have b: "fst (add_coin up now POST f st) = Inr (Redirect ''/portfolio'')"
    if "fst (get_simple_prices up (IdList [[]])) = JObj kvs" "map_of kvs [] = None"
    using that c by (rule add_coin_no_entry)
  from a b has_blank_preserved [of s op up'] has_blank_refresh_request [of s up' t]
  show ?thesis by blast
qed

theorem add_coin_blank_coin_id_witness:
  "strip (form_get blank_form ''coin_id'' []) = [] \<and>
   fst (add_coin demo_upstream 5 POST blank_form empty_store) = Inr (Redirect ''/portfolio'') \<and>
   has_blank (fst (snd (add_coin demo_upstream 5 POST blank_form empty_store))) \<and>
   has_blank (apply_operation demo_upstream (RefreshAll 9)
      (fst (snd (add_coin demo_upstream 5 POST blank_form empty_store)))) \<and>
   [] \<in> set (select_distinct_coin_id
      (rows (fst (snd (add_coin demo_upstream 5 POST blank_form empty_store))))) \<and>
   snd (snd (refresh_portfolio_prices demo_upstream 9
      (fst (snd (add_coin demo_upstream 5 POST blank_form empty_store))))) =
     [simple_price_request (select_distinct_coin_id
        (rows (fst (snd (add_coin demo_upstream 5 POST blank_form empty_store)))))]"
proof -
  let ?a = "add_coin demo_upstream 5 POST blank_form empty_store"
  let ?kvs = "[(''bitcoin'', JObj [(''usd'', JInt 50000)])]"
  have blank: "strip (form_get blank_form ''coin_id'' []) = []"
    by (simp add: blank_form_def form_get_def strip_def py_isspace_def)
  have run: "?a = (Inr (Redirect ''/portfolio''), fst (snd ?a), snd (snd ?a))"
    by (simp add: blank_form_def demo_add_blank)
  have g: "fst (get_simple_prices demo_upstream (IdList [[]])) = JObj ?kvs"
    by (simp add: get_simple_prices_def http_get_def fetch_def session_get_def retry_total_Suc
        status_forcelist_def py_or_def demo_upstream_def Let_def)
  have m: "map_of ?kvs [] = None" by simp
  have op: "\<not> is_remove (RefreshAll 9)" by simp
  from add_coin_blank_coin_id [OF blank, of demo_upstream 5 empty_store
      "Redirect ''/portfolio''" "fst (snd ?a)" "snd (snd ?a)" ?kvs "fst (snd ?a)"
      "RefreshAll 9" demo_upstream 9] run g m op blank
  show ?thesis by blast
qed


section \<open>The columns that may be \<open>NULL\<close>\<close>

text \<open>
  C9 as stated fails: the price that \<open>add_coin\<close> and the refresh bind is
  \<open>float(usd_price)\<close>, and when the gateway's value converts to a NaN (here the text
  \<open>nan\<close>) the column receives \<open>NULL\<close>. Starting from the empty store, one submission
  leaves a row whose \<open>current_price\<close> is \<open>NULL\<close>.
\<close>

theorem add_coin_nan_price_counterexample:
  "prices_not_null empty_store \<and>
   \<not> prices_not_null (apply_operation nan_upstream
        (Add 5 POST [(''coin_id'', ''bitcoin''), (''quantity'', ''2'')]) empty_store) \<and>
   current_price (last (rows (apply_operation nan_upstream
        (Add 5 POST [(''coin_id'', ''bitcoin''), (''quantity'', ''2'')]) empty_store))) = None"
proof -
  have a: "prices_not_null empty_store"
    by (simp add: prices_not_null_def empty_store_def)
  have b: "\<not> prices_not_null (apply_operation nan_upstream
        (Add 5 POST [(''coin_id'', ''bitcoin''), (''quantity'', ''2'')]) empty_store)"
    by (simp add: demo_add_nan prices_not_null_def)
  have c: "current_price (last (rows (apply_operation nan_upstream
        (Add 5 POST [(''coin_id'', ''bitcoin''), (''quantity'', ''2'')]) empty_store))) = None"
    by (simp add: demo_add_nan)
  from a b c show ?thesis by blast
qed

text \<open>
  C9, amended. Every operation (add, refresh, remove) keeps the invariant that no row
  has a \<open>NULL\<close> \<open>last_updated\<close>, and keeps the invariant that no row has a \<open>NULL\<close>
  \<open>current_price\<close> provided that no price taken from the gateway converts to a NaN:
  \<open>add_coin\<close> always binds a float (\<open>0.0\<close> when the gateway has none) and a time stamp,
  and the refresh overwrites the two columns with a float and a time stamp only.
\<close>

theorem operations_keep_not_null:
  "(stamps_not_null st \<longrightarrow> stamps_not_null (apply_operation up op st)) \<and>
   (prices_not_null st \<and> nan_free up \<longrightarrow> prices_not_null (apply_operation up op st))"
proof (cases op)
  case (Add t m f)
  have nn: "sqlite_real p \<noteq> None"
    if "nan_free up"
      "p = Fin 0 \<or> price_update (fst (get_simple_prices up (IdList [form_coin_id f]))) (form_coin_id f) = Some p"
    for p
  proof -
    from that have "p \<noteq> NaN" by (auto simp: nan_free_def)
    then show ?thesis by (rule sqlite_real_Some)
  qed
  from add_rows_cases [of up t m f st] show ?thesis
    using Add nn by (auto simp: stamps_not_null_def prices_not_null_def)
next
  case (RefreshAll t)
  let ?P = "batch_prices up st"
  have s: "list_all (\<lambda>r. last_updated r \<noteq> None) (map (refreshed ?P t) (rows st))"
    if h: "list_all (\<lambda>r. last_updated r \<noteq> None) (rows st)"
    unfolding list_all_iff
  proof
    fix x assume "x \<in> set (map (refreshed ?P t) (rows st))"
    then obtain r where r: "r \<in> set (rows st)" "x = refreshed ?P t r" by auto
    from h r(1) have "last_updated r \<noteq> None" unfolding list_all_iff by blast
    with r(2) show "last_updated x \<noteq> None" using refreshed_stamp by blast
  qed
  have p: "list_all (\<lambda>r. current_price r \<noteq> None) (map (refreshed ?P t) (rows st))"
    if h: "list_all (\<lambda>r. current_price r \<noteq> None) (rows st)" and nf: "nan_free up"
    unfolding list_all_iff
  proof
    fix x assume "x \<in> set (map (refreshed ?P t) (rows st))"
    then obtain r where r: "r \<in> set (rows st)" "x = refreshed ?P t r" by auto
    from h r(1) have "current_price r \<noteq> None" unfolding list_all_iff by blast
    moreover from nf have "price_update ?P (coin_id r) \<noteq> Some NaN"
      unfolding nan_free_def batch_prices_def by blast
    ultimately show "current_price x \<noteq> None" using r(2) refreshed_price by blast
  qed
  from refresh_rows_cases [of up t st] show ?thesis
    using RefreshAll s p by (auto simp: stamps_not_null_def prices_not_null_def)
next
  case (Remove i)
  then show ?thesis
    by (auto simp: stamps_not_null_def prices_not_null_def delete_coin_def sql_delete_def list_all_iff
        split: if_splits)
qed

theorem operations_keep_not_null_witness:
  "nan_free demo_upstream \<and> prices_not_null demo_store \<and> stamps_not_null demo_store \<and>
   prices_not_null (apply_operation demo_upstream (RefreshAll 99) demo_store) \<and>
   stamps_not_null (apply_operation demo_upstream (RefreshAll 99) demo_store)"
proof -
  have p: "prices_not_null demo_store" and s: "stamps_not_null demo_store"
    by (simp_all add: prices_not_null_def stamps_not_null_def demo_store_def demo_rows_def)
  from operations_keep_not_null [of demo_store demo_upstream "RefreshAll 99"] p s demo_nan_free
  show ?thesis by blast
qed


end
